theory Spec2Isabelle
  imports Complex_Main "HOL-Library.Sublist"
begin

section \<open>Augmentations (dino/data/augmentations.py)\<close>

subsection \<open>Python's random module\<close>

text \<open>
  The generator state is the stream of the floats in \<open>[0, 1)\<close> that \<open>random.random()\<close>
  is still going to return, idealised as reals. \<open>random.uniform(a, b)\<close> is
  \<open>a + (b - a) * random()\<close>.
\<close>

type_synonym rng = "nat \<Rightarrow> real"

definition random_random :: "rng \<Rightarrow> real \<times> rng" where
  "random_random g = (g 0, \<lambda>n. g (Suc n))"

definition random_uniform :: "real \<Rightarrow> real \<Rightarrow> rng \<Rightarrow> real \<times> rng" where
  "random_uniform a b g = (let (u, g') = random_random g in (a + (b - a) * u, g'))"

subsection \<open>Transforms and symbolic images\<close>

text \<open>
  The transform objects that \<open>__init__\<close> builds. \<open>GaussianBlur\<close> carries
  \<open>prob\<close>, \<open>radius_min\<close>, \<open>radius_max\<close>; \<open>Solarization\<close> carries \<open>p\<close>;
  the others are torchvision's, with the arguments the source gives them.
\<close>

datatype interpolation = NEAREST | BILINEAR | BICUBIC

datatype transform =
    RandomResizedCrop nat "real \<times> real" interpolation
  | RandomHorizontalFlip real
  | RandomApply "transform list" real
  | ColorJitter real real real real
  | RandomGrayscale real
  | ToTensor
  | Normalize "real list" "real list"
  | GaussianBlur real real real
  | Solarization real
  | Compose "transform list"

text \<open>
  An image is symbolic: its spatial size and the operations applied to it so far.
  A torchvision transform is recorded as applied (its own randomness comes from torch's
  generator and stays unresolved); \<open>ImageFilter.GaussianBlur(radius)\<close> and
  \<open>ImageOps.solarize\<close> are recorded when the source's classes decide to apply them.
\<close>

datatype img_op = Torchvision transform | Filter_GaussianBlur real | ImageOps_solarize

record img =
  img_size :: "nat \<times> nat"
  history :: "img_op list"

definition record_op :: "img_op \<Rightarrow> img \<Rightarrow> img" where
  "record_op opn x = x\<lparr>history := history x @ [opn]\<rparr>"

text \<open>\<open>GaussianBlur.__call__\<close>: \<open>do_it = random.random() <= self.prob\<close>.\<close>

definition GaussianBlur_call :: "real \<Rightarrow> real \<Rightarrow> real \<Rightarrow> img \<Rightarrow> rng \<Rightarrow> img \<times> rng" where
  "GaussianBlur_call prob radius_min radius_max x g =
     (let (u, g1) = random_random g;
          do_it = (u \<le> prob)
      in if \<not> do_it then (x, g1)
         else (let (radius, g2) = random_uniform radius_min radius_max g1
               in (record_op (Filter_GaussianBlur radius) x, g2)))"

text \<open>\<open>Solarization.__call__\<close>: \<open>if random.random() < self.p\<close>.\<close>

definition Solarization_call :: "real \<Rightarrow> img \<Rightarrow> rng \<Rightarrow> img \<times> rng" where
  "Solarization_call p x g =
     (let (u, g1) = random_random g
      in if u < p then (record_op ImageOps_solarize x, g1) else (x, g1))"

text \<open>
  Applying a transform. \<open>RandomResizedCrop(size, ...)\<close> returns a \<open>size \<times> size\<close>
  image; every other transform keeps the spatial size. \<open>Compose\<close> applies its
  transforms in order.
\<close>

fun apply_transform :: "transform \<Rightarrow> img \<times> rng \<Rightarrow> img \<times> rng" where
  "apply_transform (Compose ts) xg = fold apply_transform ts xg"
| "apply_transform (GaussianBlur prob rmin rmax) xg = GaussianBlur_call prob rmin rmax (fst xg) (snd xg)"
| "apply_transform (Solarization p) xg = Solarization_call p (fst xg) (snd xg)"
| "apply_transform (RandomResizedCrop s sc ip) xg =
     (record_op (Torchvision (RandomResizedCrop s sc ip)) ((fst xg)\<lparr>img_size := (s, s)\<rparr>), snd xg)"
| "apply_transform t xg = (record_op (Torchvision t) (fst xg), snd xg)"

subsection \<open>PatchDataAugmentationDINO\<close>

record PatchDataAugmentationDINO =
  global_transfo1 :: transform
  global_transfo2 :: transform
  local_crops_number :: int
  local_transfo :: transform

definition flip_and_color_jitter :: transform where
  "flip_and_color_jitter = Compose
     [RandomHorizontalFlip 0.5,
      RandomApply [ColorJitter 0.4 0.4 0.2 0.1] 0.8,
      RandomGrayscale 0.2]"

definition normalize :: transform where
  "normalize = Compose [ToTensor, Normalize [0.485, 0.456, 0.406] [0.229, 0.224, 0.225]]"

definition global_crop_size :: nat where "global_crop_size = 224"
definition local_crop_size :: nat where "local_crop_size = 96"

definition PatchDataAugmentationDINO_init ::
  "real \<times> real \<Rightarrow> real \<times> real \<Rightarrow> int \<Rightarrow> PatchDataAugmentationDINO" where
  "PatchDataAugmentationDINO_init global_crops_scale local_crops_scale n =
     \<lparr>global_transfo1 = Compose
        [RandomResizedCrop global_crop_size global_crops_scale BICUBIC,
         flip_and_color_jitter,
         GaussianBlur 1.0 0.1 2.0,
         normalize],
      global_transfo2 = Compose
        [RandomResizedCrop global_crop_size global_crops_scale BICUBIC,
         flip_and_color_jitter,
         GaussianBlur 0.1 0.1 2.0,
         Solarization 0.2,
         normalize],
      local_crops_number = n,
      local_transfo = Compose
        [RandomResizedCrop local_crop_size local_crops_scale BICUBIC,
         flip_and_color_jitter,
         GaussianBlur 0.5 0.1 2.0,
         normalize]\<rparr>"

text \<open>
  The loop \<open>for _ in range(self.local_crops_number)\<close> runs \<open>nat n\<close> times (not at
  all for \<open>n \<le> 0\<close>), appending one local crop each time.
\<close>

fun local_crops_loop :: "transform \<Rightarrow> img \<Rightarrow> nat \<Rightarrow> img list \<times> rng \<Rightarrow> img list \<times> rng" where
  "local_crops_loop t x 0 cg = cg"
| "local_crops_loop t x (Suc k) cg =
     (let (c, g') = apply_transform t (x, snd cg)
      in local_crops_loop t x k (fst cg @ [c], g'))"

definition PatchDataAugmentationDINO_call ::
  "PatchDataAugmentationDINO \<Rightarrow> img \<Rightarrow> rng \<Rightarrow> img list \<times> rng" where
  "PatchDataAugmentationDINO_call self x g =
     (let crops = [];
          (c1, g1) = apply_transform (global_transfo1 self) (x, g);
          crops = crops @ [c1];
          (c2, g2) = apply_transform (global_transfo2 self) (x, g1);
          crops = crops @ [c2]
      in local_crops_loop (local_transfo self) x (nat (local_crops_number self)) (crops, g2))"

section \<open>Training entry point (dino/patch.py)\<close>

subsection \<open>Configuration\<close>

text \<open>
  The groups and keys of \<open>cfg\<close> that \<open>main\<close>'s control flow reads. A path is the list
  of its parts. \<open>save_every\<close> and \<open>tune_every\<close> are integers used for their truth
  value (\<open>0\<close>, like \<open>None\<close>, is false) and as moduli.
\<close>

type_synonym path = "string list"

record train_cfg =
  output_dir :: path
  batch_size_per_gpu :: int
  resume :: bool
  resume_from_checkpoint :: path
  save_every :: int

record lr_scheduler_cfg =
  min_lr :: real
  weight_decay :: real
  weight_decay_end :: real

record optim_cfg =
  epochs :: int
  warmup_epochs :: int
  lr :: real
  lr_scheduler :: lr_scheduler_cfg

record knn_cfg =
  save_features :: bool

record tune_cfg =
  tune_every :: int
  tune_enable :: bool
  knn :: knn_cfg

record cfg =
  train :: train_cfg
  optim :: optim_cfg
  tune :: tune_cfg
  momentum_teacher :: real
  use_fp16 :: bool
  wandb_enable :: bool

subsection \<open>Processes\<close>

text \<open>
  What one process of the job sees: its rank, \<open>torch.cuda.device_count()\<close>,
  \<open>get_world_size()\<close>, the string \<open>datetime.now().strftime(...)\<close> would return, the
  id wandb would give a run, and \<open>len(data_loader)\<close>.
\<close>

record proc =
  rank :: nat
  device_count :: nat
  world_size :: nat
  now :: string
  wandb_id :: string
  data_loader_len :: nat

definition distributed :: "proc \<Rightarrow> bool" where
  "distributed p = (device_count p > 1)"

text \<open>
  Modelled from the spec: \<open>dino.distributed.is_main_process\<close> is not among the sources.
  The spec (4.6) designates rank 0 as the coordinating process of a multi-process job; a
  job without a process group has a single process, which coordinates.
\<close>

definition is_main_process :: "proc \<Rightarrow> bool" where
  "is_main_process p = (if distributed p then rank p = 0 else True)"

text \<open>\<open>dino.distributed.get_world_size\<close> is not among the sources either; its value is the
  field \<open>world_size\<close> of the process.\<close>

definition get_world_size :: "proc \<Rightarrow> nat" where
  "get_world_size p = world_size p"

subsection \<open>Files, events and the program state\<close>

datatype error =
    AssertionError | NotADirectoryError | FileNotFoundError | FileExistsError | UnpicklingError

record 's snapshot =
  snap_epoch :: int
  snap_state :: 's

datatype json = JInt int | JFloat real

type_synonym train_stats = "(string \<times> real) list"
type_synonym tune_results = "(string \<times> real) list"
type_synonym log_line = "(string \<times> json) list"

datatype 's node = Dir | SnapshotFile "'s snapshot" | LogFile "log_line list" | OtherFile

text \<open>
  \<open>'s\<close> is the training state that a snapshot holds besides the epoch (the state dicts of
  student, teacher, optimizer, loss and scaler). The trace lists, in order, the actions of
  \<open>main\<close> that reach outside it.
\<close>

datatype event =
    ReadClock | WandbInit
  | Rmtree path | Mkdir path | WriteConfig path
  | PrepareTuneData | MakeDataset | MakeDataLoader | BuildNetworks | BuildLoss
  | CreateOptimizer | CreateGradScaler
  | CosineScheduler real real int nat int
  | TorchLoad path | ResumeFromCheckpoint path
  | SetEpoch int | TrainOneEpoch int | TuneOneEpoch int | EarlyStoppingCall int
  | StopMessage | TorchSave path | LogWrite path log_line | WandbLog int | Barrier
  | DestroyProcessGroup

record ('s, 'es) world =
  fs :: "path \<rightharpoonup> 's node"
  trace :: "event list"
  state :: 's
  es :: 'es

definition emit :: "event list \<Rightarrow> ('s, 'es) world \<Rightarrow> ('s, 'es) world" where
  "emit evs w = w\<lparr>trace := trace w @ evs\<rparr>"

text \<open>\<open>Path(p, s)\<close>: joining with the empty string adds no part.\<close>

definition Path :: "path \<Rightarrow> string \<Rightarrow> path" where
  "Path p s = (if s = [] then p else p @ [s])"

definition path_exists :: "('s, 'es) world \<Rightarrow> path \<Rightarrow> bool" where
  "path_exists w p = (fs w p \<noteq> None)"

definition path_is_file :: "('s, 'es) world \<Rightarrow> path \<Rightarrow> bool" where
  "path_is_file w p = (case fs w p of None \<Rightarrow> False | Some Dir \<Rightarrow> False | Some _ \<Rightarrow> True)"

text \<open>\<open>shutil.rmtree(p)\<close> removes the directory \<open>p\<close> and everything below it.\<close>

definition shutil_rmtree :: "path \<Rightarrow> ('s, 'es) world \<Rightarrow> error + ('s, 'es) world" where
  "shutil_rmtree p w =
     (case fs w p of
        None \<Rightarrow> Inl FileNotFoundError
      | Some Dir \<Rightarrow> Inr (emit [Rmtree p] (w\<lparr>fs := (\<lambda>q. if prefix p q then None else fs w q)\<rparr>))
      | Some _ \<Rightarrow> Inl NotADirectoryError)"

text \<open>\<open>p.mkdir(parents=True, exist_ok=...)\<close> creates \<open>p\<close> and its missing ancestors.\<close>

definition path_mkdir :: "bool \<Rightarrow> path \<Rightarrow> ('s, 'es) world \<Rightarrow> error + ('s, 'es) world" where
  "path_mkdir exist_ok p w =
     (case fs w p of
        None \<Rightarrow> Inr (emit [Mkdir p]
                  (w\<lparr>fs := (\<lambda>q. if prefix q p \<and> fs w q = None then Some Dir else fs w q)\<rparr>))
      | Some Dir \<Rightarrow> if exist_ok then Inr w else Inl FileExistsError
      | Some _ \<Rightarrow> Inl FileExistsError)"

text \<open>\<open>torch.save\<close> and the appending write to the log, on their success path.\<close>

definition torch_save :: "'s snapshot \<Rightarrow> path \<Rightarrow> ('s, 'es) world \<Rightarrow> ('s, 'es) world" where
  "torch_save snapshot p w = emit [TorchSave p] (w\<lparr>fs := (fs w)(p \<mapsto> SnapshotFile snapshot)\<rparr>)"

definition torch_load :: "path \<Rightarrow> ('s, 'es) world \<Rightarrow> error + 's snapshot" where
  "torch_load p w = (case fs w p of Some (SnapshotFile s) \<Rightarrow> Inr s | _ \<Rightarrow> Inl UnpicklingError)"

definition append_line :: "path \<Rightarrow> log_line \<Rightarrow> ('s, 'es) world \<Rightarrow> ('s, 'es) world" where
  "append_line p l w =
     (let old = (case fs w p of Some (LogFile ls) \<Rightarrow> ls | _ \<Rightarrow> [])
      in emit [LogWrite p l] (w\<lparr>fs := (fs w)(p \<mapsto> LogFile (old @ [l]))\<rparr>))"

subsection \<open>Collaborators\<close>

text \<open>
  The functions \<open>main\<close> calls that are not among the sources, as parameters:
  \<open>train_one_epoch\<close> and \<open>tune_one_epoch\<close> (dino.utils), the early-stopping controller
  \<open>EarlyStoppingDINO\<close> (dino.components) with its constructor, its \<open>__call__\<close> (which
  may write snapshot files) and its \<open>early_stop\<close> flag, \<open>resume_from_checkpoint\<close>
  (dino.utils), and the training state right after the networks, loss and optimizer are
  built.
\<close>

record ('s, 'es) collaborators =
  initial_state :: 's
  train_one_epoch :: "int \<Rightarrow> 's \<Rightarrow> 's \<times> train_stats"
  tune_one_epoch :: "int \<Rightarrow> 's \<Rightarrow> tune_results"
  EarlyStoppingDINO_init :: "path \<Rightarrow> int \<Rightarrow> 'es"
  early_stopping_call ::
    "int \<Rightarrow> tune_results option \<Rightarrow> 's snapshot \<Rightarrow> 'es \<times> (path \<rightharpoonup> 's node) \<Rightarrow> 'es \<times> (path \<rightharpoonup> 's node)"
  early_stop :: "'es \<Rightarrow> bool"
  utils_resume_from_checkpoint :: "path \<Rightarrow> (path \<rightharpoonup> 's node) \<Rightarrow> 's \<Rightarrow> error + int \<times> 's"

subsection \<open>Run identifier and output directory (lines 71-92)\<close>

text \<open>
  Lines 71-82 in one process: the main process takes the formatted time, replaced by the
  wandb run id when wandb is enabled; every other process takes the empty string. The
  events say which sources of an identifier the process consulted.
\<close>

definition local_run_id :: "cfg \<Rightarrow> proc \<Rightarrow> string \<times> event list" where
  "local_run_id c p =
     (if is_main_process p then
        (let run_id = now p
         in if wandb_enable c then (wandb_id p, [ReadClock, WandbInit]) else (run_id, [ReadClock]))
      else ([], []))"

text \<open>
  \<open>torch.distributed.broadcast_object_list(obj, 0)\<close> over the whole job: \<open>objs\<close>
  holds \<open>obj[0]\<close> of every rank, and every rank ends with the value of rank \<open>src\<close>.
\<close>

definition broadcast_object_list :: "'a list \<Rightarrow> nat \<Rightarrow> 'a list" where
  "broadcast_object_list objs src = map (\<lambda>_. objs ! src) objs"

definition job_run_ids :: "cfg \<Rightarrow> proc list \<Rightarrow> string list" where
  "job_run_ids c ps =
     (let objs = map (\<lambda>p. fst (local_run_id c p)) ps;
          received = broadcast_object_list objs 0
      in map (\<lambda>(p, own, r). if distributed p then r else own) (zip ps (zip objs received)))"

definition job_output_dirs :: "cfg \<Rightarrow> proc list \<Rightarrow> path list" where
  "job_output_dirs c ps = map (\<lambda>run_id. Path (output_dir (train c)) run_id) (job_run_ids c ps)"

text \<open>A multi-process job: process \<open>r\<close> of the list has rank \<open>r\<close> and sees several devices.\<close>

definition multi_process_job :: "proc list \<Rightarrow> bool" where
  "multi_process_job ps = (ps \<noteq> [] \<and> map rank ps = [0..<length ps] \<and> list_all distributed ps)"

subsection \<open>Startup (lines 97-317)\<close>

definition setup_output_dir ::
  "cfg \<Rightarrow> proc \<Rightarrow> path \<Rightarrow> ('s, 'es) world \<Rightarrow> error + ('s, 'es) world" where
  "setup_output_dir c p out w =
     (let snapshot_dir = Path out ''snapshots'';
          features_dir = Path out ''features''
      in if \<not> resume (train c) \<and> is_main_process p then
           (case (if path_exists w out
                  then (case shutil_rmtree out w of
                          Inl e \<Rightarrow> Inl e
                        | Inr w1 \<Rightarrow> path_mkdir False out w1)
                  else path_mkdir True out w) of
              Inl e \<Rightarrow> Inl e
            | Inr w2 \<Rightarrow>
                (case path_mkdir True snapshot_dir w2 of
                   Inl e \<Rightarrow> Inl e
                 | Inr w3 \<Rightarrow>
                     if tune_every (tune c) \<noteq> 0 \<and> save_features (knn (tune c))
                     then path_mkdir True features_dir w3
                     else Inr w3))
         else Inr w)"

text \<open>
  Lines 110-259: the configuration file, the tuning data, the dataset and its loader, the
  networks, the loss, the optimizer and the gradient scaler, in the source's order.
\<close>

definition prepare ::
  "cfg \<Rightarrow> proc \<Rightarrow> ('s, 'es) collaborators \<Rightarrow> path \<Rightarrow> ('s, 'es) world \<Rightarrow> ('s, 'es) world" where
  "prepare c p C out w =
     emit ((if is_main_process p then [WriteConfig out] else [])
           @ (if is_main_process p \<and> tune_every (tune c) \<noteq> 0 then [PrepareTuneData] else [])
           @ [MakeDataset, MakeDataLoader, BuildNetworks, BuildLoss, CreateOptimizer]
           @ (if use_fp16 c then [CreateGradScaler] else []))
          (w\<lparr>state := initial_state C\<rparr>)"

text \<open>Lines 264-281; floats are idealised as reals.\<close>

definition base_lr :: "cfg \<Rightarrow> proc \<Rightarrow> real" where
  "base_lr c p =
     lr (optim c) * real_of_int (batch_size_per_gpu (train c) * int (get_world_size p)) / 256.0"

definition make_schedules :: "cfg \<Rightarrow> proc \<Rightarrow> ('s, 'es) world \<Rightarrow> ('s, 'es) world" where
  "make_schedules c p w =
     emit [CosineScheduler (base_lr c p) (min_lr (lr_scheduler (optim c))) (epochs (optim c))
             (data_loader_len p) (warmup_epochs (optim c)),
           CosineScheduler (weight_decay (lr_scheduler (optim c)))
             (weight_decay_end (lr_scheduler (optim c))) (epochs (optim c)) (data_loader_len p) 0,
           CosineScheduler (momentum_teacher c) 1 (epochs (optim c)) (data_loader_len p) 0] w"

text \<open>Lines 285-317: the value of \<open>epochs_run\<close> and the restored state.\<close>

definition restore ::
  "cfg \<Rightarrow> proc \<Rightarrow> ('s, 'es) collaborators \<Rightarrow> path \<Rightarrow> ('s, 'es) world
     \<Rightarrow> error + int \<times> ('s, 'es) world" where
  "restore c p C snapshot_dir w =
     (let epochs_run = 0;
          snapshot_path = Path snapshot_dir ''latest.pt''
      in if distributed p then
           (if path_exists w snapshot_path then
              (case torch_load snapshot_path w of
                 Inl e \<Rightarrow> Inl e
               | Inr snapshot \<Rightarrow>
                   Inr (snap_epoch snapshot,
                        emit [TorchLoad snapshot_path] (w\<lparr>state := snap_state snapshot\<rparr>)))
            else Inr (epochs_run, w))
         else if resume (train c) then
           (let ckpt_path = resume_from_checkpoint (train c)
            in case utils_resume_from_checkpoint C ckpt_path (fs w) (state w) of
                 Inl e \<Rightarrow> Inl e
               | Inr (n, s) \<Rightarrow> Inr (n, emit [ResumeFromCheckpoint ckpt_path] (w\<lparr>state := s\<rparr>)))
         else Inr (epochs_run, w))"

subsection \<open>The training loop (lines 332-455)\<close>

text \<open>\<open>f"{epoch:03}"\<close>: decimal, sign first, padded with zeros to three characters.\<close>

fun digits :: "nat \<Rightarrow> string" where
  "digits n = (if n < 10 then [''0123456789'' ! n]
               else digits (n div 10) @ [''0123456789'' ! (n mod 10)])"

declare digits.simps [simp del]

definition zero_pad :: "nat \<Rightarrow> string \<Rightarrow> string" where
  "zero_pad width ds = replicate (width - length ds) (CHR ''0'') @ ds"

definition format_03 :: "int \<Rightarrow> string" where
  "format_03 n = (if n < 0 then ''-'' @ zero_pad 2 (digits (nat (- n)))
                  else zero_pad 3 (digits (nat n)))"

definition epoch_file :: "int \<Rightarrow> string" where
  "epoch_file epoch = ''epoch_'' @ format_03 epoch @ ''.pt''"

text \<open>\<open>range(a, b)\<close> over integers.\<close>

definition py_range :: "int \<Rightarrow> int \<Rightarrow> int list" where
  "py_range a b = [a..b - 1]"

definition early_stopping_step ::
  "('s, 'es) collaborators \<Rightarrow> int \<Rightarrow> tune_results option \<Rightarrow> 's snapshot
     \<Rightarrow> ('s, 'es) world \<Rightarrow> ('s, 'es) world" where
  "early_stopping_step C epoch tune_results snapshot w =
     (let (e', f') = early_stopping_call C epoch tune_results snapshot (es w, fs w)
      in emit [EarlyStoppingCall epoch] (w\<lparr>es := e', fs := f'\<rparr>))"

text \<open>Lines 424-431: the epoch-numbered snapshot.\<close>

definition save_snapshot ::
  "cfg \<Rightarrow> proc \<Rightarrow> path \<Rightarrow> int \<Rightarrow> 's snapshot \<Rightarrow> ('s, 'es) world \<Rightarrow> ('s, 'es) world" where
  "save_snapshot c p snapshot_dir epoch snapshot w =
     (if is_main_process p then
        (let save_path = Path snapshot_dir (epoch_file epoch)
         in if save_every (train c) \<noteq> 0
               \<and> epoch mod save_every (train c) = 0
               \<and> \<not> path_is_file w save_path
            then torch_save snapshot save_path w
            else w)
      else w)"

text \<open>Lines 433-439: the line of the epoch in \<open>log.txt\<close>.\<close>

definition log_stats :: "train_stats \<Rightarrow> int \<Rightarrow> log_line" where
  "log_stats train_stats epoch =
     map (\<lambda>(k, v). (''train_'' @ k, JFloat v)) train_stats @ [(''epoch'', JInt epoch)]"

definition write_log ::
  "proc \<Rightarrow> path \<Rightarrow> train_stats \<Rightarrow> int \<Rightarrow> ('s, 'es) world \<Rightarrow> ('s, 'es) world" where
  "write_log p out train_stats epoch w =
     (if is_main_process p then append_line (Path out ''log.txt'') (log_stats train_stats epoch) w
      else w)"

text \<open>
  One iteration of the loop, in the source's three parts: lines 345-413 (training, the
  snapshot mapping, tuning, the controller's call), lines 414-421 (the \<open>stop\<close> variable
  and \<open>break\<close>) and lines 423-455 (the numbered snapshot, the log line, wandb, the
  barrier). \<open>stop\<close> is false when an iteration starts and is set on the main process only.
  The result of \<open>epoch_body\<close> says whether the loop was left by \<open>break\<close>.
\<close>

definition train_and_tune ::
  "cfg \<Rightarrow> proc \<Rightarrow> ('s, 'es) collaborators \<Rightarrow> int \<Rightarrow> ('s, 'es) world
     \<Rightarrow> (train_stats \<times> 's snapshot) \<times> ('s, 'es) world" where
  "train_and_tune c p C epoch w0 =
     (let w1 = (if distributed p then emit [SetEpoch epoch] w0 else w0);
          (s, train_stats) = train_one_epoch C epoch (state w1);
          w2 = emit [TrainOneEpoch epoch] (w1\<lparr>state := s\<rparr>);
          snapshot = \<lparr>snap_epoch = epoch, snap_state = s\<rparr>;
          tuning = (tune_every (tune c) \<noteq> 0 \<and> epoch mod tune_every (tune c) = 0
                    \<and> is_main_process p);
          tune_results = (if tuning then Some (tune_one_epoch C epoch s) else None);
          w3 = (if tuning then emit [TuneOneEpoch epoch] w2 else w2);
          w4 = (if is_main_process p then early_stopping_step C epoch tune_results snapshot w3
                else w3)
      in ((train_stats, snapshot), w4))"

definition stop_set :: "cfg \<Rightarrow> proc \<Rightarrow> ('s, 'es) collaborators \<Rightarrow> ('s, 'es) world \<Rightarrow> bool" where
  "stop_set c p C w = (is_main_process p \<and> early_stop C (es w) \<and> tune_enable (tune c))"

definition finish_epoch ::
  "cfg \<Rightarrow> proc \<Rightarrow> path \<Rightarrow> int \<Rightarrow> 's snapshot \<Rightarrow> train_stats \<Rightarrow> ('s, 'es) world
     \<Rightarrow> ('s, 'es) world" where
  "finish_epoch c p out epoch snapshot train_stats w4 =
     (let snapshot_dir = Path out ''snapshots'';
          w5 = save_snapshot c p snapshot_dir epoch snapshot w4;
          w6 = write_log p out train_stats epoch w5;
          w7 = (if is_main_process p \<and> wandb_enable c then emit [WandbLog epoch] w6 else w6);
          w8 = (if distributed p then emit [Barrier] w7 else w7)
      in w8)"

definition epoch_body ::
  "cfg \<Rightarrow> proc \<Rightarrow> ('s, 'es) collaborators \<Rightarrow> path \<Rightarrow> int \<Rightarrow> ('s, 'es) world
     \<Rightarrow> bool \<times> ('s, 'es) world" where
  "epoch_body c p C out epoch w0 =
     (let ((train_stats, snapshot), w4) = train_and_tune c p C epoch w0;
          stop = stop_set c p C w4
      in if stop then (True, emit [StopMessage] w4)
         else (False, finish_epoch c p out epoch snapshot train_stats w4))"

fun train_loop ::
  "cfg \<Rightarrow> proc \<Rightarrow> ('s, 'es) collaborators \<Rightarrow> path \<Rightarrow> int list \<Rightarrow> ('s, 'es) world
     \<Rightarrow> bool \<times> ('s, 'es) world" where
  "train_loop c p C out [] w = (False, w)"
| "train_loop c p C out (epoch # rest) w =
     (case epoch_body c p C out epoch w of
        (True, w') \<Rightarrow> (True, w')
      | (False, w') \<Rightarrow> train_loop c p C out rest w')"

subsection \<open>main\<close>

datatype outcome = Completed | StoppedEarly | Raised error

text \<open>
  One process running \<open>main\<close> on the file system \<open>fs0\<close>. \<open>received\<close> is what the
  broadcast leaves in \<open>obj[0]\<close> (read in a multi-process job only). The initial world
  holds the state and the controller that the constructors of lines 179-259 and 319 build.
  \<open>startup\<close> is everything before the loop and yields \<open>epochs_run\<close>; with an error,
  the world returned is the one before the stage that raised.
\<close>

definition run_output_dir :: "cfg \<Rightarrow> proc \<Rightarrow> string \<Rightarrow> path" where
  "run_output_dir c p received =
     (let own_id = fst (local_run_id c p);
          run_id = (if distributed p then received else own_id)
      in Path (output_dir (train c)) run_id)"

definition initial_world ::
  "cfg \<Rightarrow> proc \<Rightarrow> ('s, 'es) collaborators \<Rightarrow> string \<Rightarrow> (path \<rightharpoonup> 's node) \<Rightarrow> ('s, 'es) world" where
  "initial_world c p C received fs0 =
     \<lparr>fs = fs0, trace = snd (local_run_id c p), state = initial_state C,
      es = EarlyStoppingDINO_init C (Path (run_output_dir c p received) ''snapshots'')
             (save_every (train c))\<rparr>"

definition startup ::
  "cfg \<Rightarrow> proc \<Rightarrow> ('s, 'es) collaborators \<Rightarrow> string \<Rightarrow> (path \<rightharpoonup> 's node)
     \<Rightarrow> (error + int) \<times> ('s, 'es) world" where
  "startup c p C received fs0 =
     (let out = run_output_dir c p received;
          snapshot_dir = Path out ''snapshots'';
          w0 = initial_world c p C received fs0
      in case setup_output_dir c p out w0 of
           Inl e \<Rightarrow> (Inl e, w0)
         | Inr w1 \<Rightarrow>
             (let w2 = prepare c p C out w1
              in if \<not> (epochs (optim c) \<ge> warmup_epochs (optim c)) then (Inl AssertionError, w2)
                 else
                   (let w3 = make_schedules c p w2
                    in case restore c p C snapshot_dir w3 of
                         Inl e \<Rightarrow> (Inl e, w3)
                       | Inr (epochs_run, w4) \<Rightarrow> (Inr epochs_run, w4))))"

definition main ::
  "cfg \<Rightarrow> proc \<Rightarrow> ('s, 'es) collaborators \<Rightarrow> string \<Rightarrow> (path \<rightharpoonup> 's node)
     \<Rightarrow> outcome \<times> ('s, 'es) world" where
  "main c p C received fs0 =
     (case startup c p C received fs0 of
        (Inl e, w) \<Rightarrow> (Raised e, w)
      | (Inr epochs_run, w4) \<Rightarrow>
          (let (stop, w5) = train_loop c p C (run_output_dir c p received)
                              (py_range epochs_run (epochs (optim c))) w4;
               w6 = (if distributed p then emit [DestroyProcessGroup] w5 else w5)
           in (if stop then StoppedEarly else Completed, w6)))"

subsection \<open>Concrete inputs\<close>

text \<open>
  Collaborators for concrete runs: training counts the epochs it ran, tuning reports a
  constant, and the controller writes \<open>latest.pt\<close> at every call and raises its flag
  from epoch \<open>k\<close> on.
\<close>

definition counting_collaborators :: "int \<Rightarrow> (nat, path \<times> bool) collaborators" where
  "counting_collaborators k =
     \<lparr>initial_state = 0,
      train_one_epoch = (\<lambda>epoch s. (Suc s, [(''loss'', 1)])),
      tune_one_epoch = (\<lambda>epoch s. [(''acc'', 0)]),
      EarlyStoppingDINO_init = (\<lambda>checkpoint_dir n. (checkpoint_dir, False)),
      early_stopping_call = (\<lambda>epoch r snapshot ef.
         ((fst (fst ef), snd (fst ef) \<or> k \<le> epoch),
          (snd ef)(Path (fst (fst ef)) ''latest.pt'' \<mapsto> SnapshotFile snapshot))),
      early_stop = snd,
      utils_resume_from_checkpoint = (\<lambda>ckpt f s.
         case f ckpt of Some (SnapshotFile sn) \<Rightarrow> Inr (snap_epoch sn, snap_state sn)
                      | _ \<Rightarrow> Inl FileNotFoundError)\<rparr>"

definition example_cfg :: cfg where
  "example_cfg =
     \<lparr>train = \<lparr>output_dir = [''output''], batch_size_per_gpu = 64, resume = False,
               resume_from_checkpoint = [''output'', ''ckpt.pt''], save_every = 1\<rparr>,
      optim = \<lparr>epochs = 3, warmup_epochs = 1, lr = 0.0005,
               lr_scheduler = \<lparr>min_lr = 0.000001, weight_decay = 0.04, weight_decay_end = 0.4\<rparr>\<rparr>,
      tune = \<lparr>tune_every = 1, tune_enable = True, knn = \<lparr>save_features = False\<rparr>\<rparr>,
      momentum_teacher = 0.996,
      use_fp16 = True,
      wandb_enable = False\<rparr>"

definition single_proc :: proc where
  "single_proc = \<lparr>rank = 0, device_count = 1, world_size = 1, now = ''2024-01-01_00_00'',
                  wandb_id = ''abc123'', data_loader_len = 10\<rparr>"

definition worker_proc :: "nat \<Rightarrow> proc" where
  "worker_proc r = \<lparr>rank = r, device_count = 2, world_size = 2, now = ''2024-01-01_00_00'',
                    wandb_id = ''abc123'', data_loader_len = 10\<rparr>"

subsection \<open>Observations\<close>

text \<open>The operations a crop \<open>c\<close> went through beyond those of the input image \<open>x\<close>.\<close>

definition new_ops :: "img \<Rightarrow> img \<Rightarrow> img_op list" where
  "new_ops x c = drop (length (history x)) (history c)"







text \<open>The epochs trained and the schedule generator's calls, as a trace records them.\<close>

definition trained :: "event list \<Rightarrow> int list" where
  "trained tr = List.map_filter (\<lambda>ev. case ev of TrainOneEpoch e \<Rightarrow> Some e | _ \<Rightarrow> None) tr"

fun is_schedule_call :: "event \<Rightarrow> bool" where
  "is_schedule_call (CosineScheduler b f n k wu) = True"
| "is_schedule_call _ = False"

definition schedule_calls :: "event list \<Rightarrow> event list" where
  "schedule_calls tr = filter is_schedule_call tr"

text \<open>The snapshot saves and log lines of \<open>main\<close> itself that a trace records.\<close>

fun is_bookkeeping :: "event \<Rightarrow> bool" where
  "is_bookkeeping (TorchSave pth) = True"
| "is_bookkeeping (LogWrite pth l) = True"
| "is_bookkeeping _ = False"

definition bookkeeping :: "event list \<Rightarrow> event list" where
  "bookkeeping tr = filter is_bookkeeping tr"

text \<open>The actions of lines 345-413 in epoch \<open>e\<close>, and those of lines 110-259.\<close>

definition train_events :: "cfg \<Rightarrow> proc \<Rightarrow> int \<Rightarrow> event list" where
  "train_events c p e =
     (if distributed p then [SetEpoch e] else [])
     @ [TrainOneEpoch e]
     @ (if tune_every (tune c) \<noteq> 0 \<and> e mod tune_every (tune c) = 0 \<and> is_main_process p
        then [TuneOneEpoch e] else [])
     @ (if is_main_process p then [EarlyStoppingCall e] else [])"

definition prepare_events :: "cfg \<Rightarrow> proc \<Rightarrow> path \<Rightarrow> event list" where
  "prepare_events c p out =
     (if is_main_process p then [WriteConfig out] else [])
     @ (if is_main_process p \<and> tune_every (tune c) \<noteq> 0 then [PrepareTuneData] else [])
     @ [MakeDataset, MakeDataLoader, BuildNetworks, BuildLoss, CreateOptimizer]
     @ (if use_fp16 c then [CreateGradScaler] else [])"

text \<open>
  Variants of the example configuration: more warmup epochs than epochs; tuning disabled;
  resuming with tuning disabled.
\<close>

definition short_cfg :: cfg where
  "short_cfg = example_cfg\<lparr>optim := (optim example_cfg)\<lparr>warmup_epochs := 5\<rparr>\<rparr>"

definition untuned_cfg :: cfg where
  "untuned_cfg = example_cfg\<lparr>tune := (tune example_cfg)\<lparr>tune_enable := False\<rparr>\<rparr>"

definition resume_cfg :: cfg where
  "resume_cfg = untuned_cfg\<lparr>train := (train untuned_cfg)\<lparr>resume := True\<rparr>\<rparr>"

text \<open>
  A file system holding only a \<open>latest.pt\<close> whose snapshot was made in epoch 1, after
  two epochs of training; and an output directory of an earlier run.
\<close>

definition latest_only :: "path \<rightharpoonup> nat node" where
  "latest_only = [[''output'', ''run1'', ''snapshots'', ''latest.pt'']
                    \<mapsto> SnapshotFile \<lparr>snap_epoch = 1, snap_state = 2\<rparr>]"

definition earlier_run :: "path \<rightharpoonup> nat node" where
  "earlier_run =
     [[''output'', ''2024-01-01_00_00''] \<mapsto> Dir,
      [''output'', ''2024-01-01_00_00'', ''log.txt''] \<mapsto> LogFile [[(''epoch'', JInt 0)]],
      [''output'', ''2024-01-01_00_00'', ''snapshots''] \<mapsto> Dir,
      [''output'', ''2024-01-01_00_00'', ''snapshots'', ''epoch_000.pt'']
         \<mapsto> SnapshotFile \<lparr>snap_epoch = 0, snap_state = 1\<rparr>]"



section \<open>Properties of the augmentation pipeline\<close>






lemma patch_augmentation_no_local_crops:
  assumes "K \<le> 0"
  shows "length (fst (PatchDataAugmentationDINO_call (PatchDataAugmentationDINO_init gs ls K) x g)) = 2"
proof -
  have n: "local_crops_number (PatchDataAugmentationDINO_init gs ls K) = K"
    by (simp add: PatchDataAugmentationDINO_init_def)
  show ?thesis
    using assms by (simp add: PatchDataAugmentationDINO_call_def n split_def Let_def)
qed



section \<open>Properties of the training entry point\<close>

subsection \<open>Traces\<close>

lemma trained_append [simp]: "trained (xs @ ys) = trained xs @ trained ys"
  by (simp add: trained_def map_filter_def)

lemma trained_Nil [simp]: "trained [] = []"
  by (simp add: trained_def map_filter_def)

lemma trained_Cons [simp]:
  "trained (ev # tr) = (case ev of TrainOneEpoch e \<Rightarrow> [e] | _ \<Rightarrow> []) @ trained tr"
  by (cases ev) (simp_all add: trained_def map_filter_def)

lemma schedule_calls_append [simp]:
  "schedule_calls (xs @ ys) = schedule_calls xs @ schedule_calls ys"
  by (simp add: schedule_calls_def)

lemma schedule_calls_Nil [simp]: "schedule_calls [] = []"
  by (simp add: schedule_calls_def)

lemma schedule_calls_Cons [simp]:
  "schedule_calls (ev # tr) = (if is_schedule_call ev then [ev] else []) @ schedule_calls tr"
  by (simp add: schedule_calls_def)

lemma bookkeeping_append [simp]: "bookkeeping (xs @ ys) = bookkeeping xs @ bookkeeping ys"
  by (simp add: bookkeeping_def)

lemma bookkeeping_Nil [simp]: "bookkeeping [] = []"
  by (simp add: bookkeeping_def)

lemma bookkeeping_Cons [simp]:
  "bookkeeping (ev # tr) = (if is_bookkeeping ev then [ev] else []) @ bookkeeping tr"
  by (simp add: bookkeeping_def)

lemma bookkeeping_train_events [simp]: "bookkeeping (train_events c p e) = []"
  by (simp add: train_events_def)

lemma trace_emit [simp]: "trace (emit evs w) = trace w @ evs"
  by (simp add: emit_def)

lemma fs_emit [simp]: "fs (emit evs w) = fs w"
  by (simp add: emit_def)

lemma es_emit [simp]: "es (emit evs w) = es w"
  by (simp add: emit_def)

lemma state_emit [simp]: "state (emit evs w) = state w"
  by (simp add: emit_def)

subsection \<open>The loop\<close>

lemma trace_early_stopping_step [simp]:
  "trace (early_stopping_step C e r sn w) = trace w @ [EarlyStoppingCall e]"
  by (simp add: early_stopping_step_def split_def Let_def)

lemma train_and_tune_trace:
  "trace (snd (train_and_tune c p C e w)) = trace w @ train_events c p e"
  by (simp add: train_and_tune_def train_events_def Let_def split_def)

lemma train_and_tune_snapshot:
  "snap_epoch (snd (fst (train_and_tune c p C e w))) = e"
  by (simp add: train_and_tune_def Let_def split_def)

lemma finish_epoch_trace:
  "trace (finish_epoch c p out e sn st w) = trace w
     @ (if is_main_process p \<and> save_every (train c) \<noteq> 0 \<and> e mod save_every (train c) = 0
           \<and> \<not> path_is_file w (Path (Path out ''snapshots'') (epoch_file e))
        then [TorchSave (Path (Path out ''snapshots'') (epoch_file e))] else [])
     @ (if is_main_process p then [LogWrite (Path out ''log.txt'') (log_stats st e)] else [])
     @ (if is_main_process p \<and> wandb_enable c then [WandbLog e] else [])
     @ (if distributed p then [Barrier] else [])"
  by (simp add: finish_epoch_def save_snapshot_def write_log_def torch_save_def append_line_def
      Let_def)

lemma epoch_body_eq:
  "epoch_body c p C out e w =
     (if stop_set c p C (snd (train_and_tune c p C e w))
      then (True, emit [StopMessage] (snd (train_and_tune c p C e w)))
      else (False, finish_epoch c p out e (snd (fst (train_and_tune c p C e w)))
                     (fst (fst (train_and_tune c p C e w))) (snd (train_and_tune c p C e w))))"
  by (simp add: epoch_body_def Let_def split_def)

lemma epoch_body_trained:
  "trained (trace (snd (epoch_body c p C out e w))) = trained (trace w) @ [e]"
  by (simp add: epoch_body_eq finish_epoch_trace train_and_tune_trace train_events_def)

lemma epoch_body_schedule_calls:
  "schedule_calls (trace (snd (epoch_body c p C out e w))) = schedule_calls (trace w)"
  by (simp add: epoch_body_eq finish_epoch_trace train_and_tune_trace train_events_def)

lemma epoch_body_no_stop:
  assumes "\<not> tune_enable (tune c)"
  shows "\<not> fst (epoch_body c p C out e w)"
  using assms by (simp add: epoch_body_eq stop_set_def)

lemma train_loop_no_stop:
  assumes "\<not> tune_enable (tune c)"
  shows "\<not> fst (train_loop c p C out eps w)
       \<and> trained (trace (snd (train_loop c p C out eps w))) = trained (trace w) @ eps"
proof (induction eps arbitrary: w)
  case Nil
  show ?case by simp
next
  case (Cons e eps)
  obtain b w' where bw: "epoch_body c p C out e w = (b, w')"
    by (cases "epoch_body c p C out e w")
  have nb: "\<not> b" using epoch_body_no_stop[OF assms, of p C out e w] bw by simp
  have tr: "trained (trace w') = trained (trace w) @ [e]"
    using epoch_body_trained[of c p C out e w] bw by simp
  show ?case using Cons.IH[of w'] bw nb tr by simp
qed

lemma train_loop_schedule_calls:
  "schedule_calls (trace (snd (train_loop c p C out eps w))) = schedule_calls (trace w)"
proof (induction eps arbitrary: w)
  case Nil
  show ?case by simp
next
  case (Cons e eps)
  obtain b w' where bw: "epoch_body c p C out e w = (b, w')"
    by (cases "epoch_body c p C out e w")
  have sc: "schedule_calls (trace w') = schedule_calls (trace w)"
    using epoch_body_schedule_calls[of c p C out e w] bw by simp
  show ?case using Cons.IH[of w'] bw sc by (cases b) simp_all
qed

subsection \<open>Startup\<close>

lemma shutil_rmtree_Inr:
  "shutil_rmtree q w = Inr w' \<Longrightarrow>
     w' = emit [Rmtree q] (w\<lparr>fs := (\<lambda>r. if prefix q r then None else fs w r)\<rparr>)
     \<and> fs w q = Some Dir"
  by (auto simp: shutil_rmtree_def split: option.splits node.splits)

lemma path_mkdir_Inr:
  "path_mkdir b q w = Inr w' \<Longrightarrow>
     (fs w q = None \<and> w' = emit [Mkdir q]
         (w\<lparr>fs := (\<lambda>r. if prefix r q \<and> fs w r = None then Some Dir else fs w r)\<rparr>))
     \<or> (fs w q = Some Dir \<and> b \<and> w' = w)"
  by (auto simp: path_mkdir_def split: option.splits node.splits if_splits)

lemma path_mkdir_obs:
  assumes "path_mkdir b q w = Inr w'"
  shows "trained (trace w') = trained (trace w)
       \<and> schedule_calls (trace w') = schedule_calls (trace w)"
  using path_mkdir_Inr[OF assms] by auto

lemma shutil_rmtree_obs:
  assumes "shutil_rmtree q w = Inr w'"
  shows "trained (trace w') = trained (trace w)
       \<and> schedule_calls (trace w') = schedule_calls (trace w)"
  using shutil_rmtree_Inr[OF assms] by auto

lemma setup_output_dir_obs:
  assumes "setup_output_dir c p out w = Inr w'"
  shows "trained (trace w') = trained (trace w)
       \<and> schedule_calls (trace w') = schedule_calls (trace w)"
  using assms
  by (auto simp: setup_output_dir_def Let_def split: if_splits sum.splits
      dest!: path_mkdir_obs shutil_rmtree_obs)

lemma initial_world_obs:
  "trained (trace (initial_world c p C r f)) = []
   \<and> schedule_calls (trace (initial_world c p C r f)) = []"
  by (simp add: initial_world_def local_run_id_def Let_def)

lemma prepare_trace:
  "trace (prepare c p C out w) = trace w @ prepare_events c p out"
  by (simp add: prepare_def prepare_events_def)

lemma prepare_events_obs:
  "trained (prepare_events c p out) = [] \<and> schedule_calls (prepare_events c p out) = []"
  by (simp add: prepare_events_def)

lemma make_schedules_trace:
  "trace (make_schedules c p w) = trace w @
     [CosineScheduler (base_lr c p) (min_lr (lr_scheduler (optim c))) (epochs (optim c))
        (data_loader_len p) (warmup_epochs (optim c)),
      CosineScheduler (weight_decay (lr_scheduler (optim c)))
        (weight_decay_end (lr_scheduler (optim c))) (epochs (optim c)) (data_loader_len p) 0,
      CosineScheduler (momentum_teacher c) 1 (epochs (optim c)) (data_loader_len p) 0]"
  by (simp add: make_schedules_def)

lemma restore_obs:
  assumes "restore c p C sd w = Inr (e0, w')"
  shows "trained (trace w') = trained (trace w)
       \<and> schedule_calls (trace w') = schedule_calls (trace w)"
  using assms
  by (auto simp: restore_def Let_def split: if_splits sum.splits prod.splits)

lemma restore_latest:
  assumes "distributed p" and "fs w (Path sd ''latest.pt'') = Some (SnapshotFile sn)"
  shows "restore c p C sd w =
           Inr (snap_epoch sn,
                emit [TorchLoad (Path sd ''latest.pt'')] (w\<lparr>state := snap_state sn\<rparr>))"
  using assms by (simp add: restore_def path_exists_def torch_load_def)

lemma startup_Inr:
  assumes "startup c p C r f = (Inr e0, w4)"
  shows "trained (trace w4) = []
       \<and> schedule_calls (trace w4) =
           [CosineScheduler (base_lr c p) (min_lr (lr_scheduler (optim c))) (epochs (optim c))
              (data_loader_len p) (warmup_epochs (optim c)),
            CosineScheduler (weight_decay (lr_scheduler (optim c)))
              (weight_decay_end (lr_scheduler (optim c))) (epochs (optim c)) (data_loader_len p) 0,
            CosineScheduler (momentum_teacher c) 1 (epochs (optim c)) (data_loader_len p) 0]"
proof -
  let ?out = "run_output_dir c p r"
  let ?w0 = "initial_world c p C r f :: ('a, 'b) world"
  from assms obtain w1 where s1: "setup_output_dir c p ?out ?w0 = Inr w1"
    by (auto simp: startup_def Let_def split: sum.splits if_splits prod.splits)
  from assms s1 have rs: "restore c p C (Path ?out ''snapshots'')
        (make_schedules c p (prepare c p C ?out w1)) = Inr (e0, w4)"
    by (auto simp: startup_def Let_def split: sum.splits if_splits prod.splits)
  have o1: "trained (trace w1) = [] \<and> schedule_calls (trace w1) = []"
    using setup_output_dir_obs[OF s1] initial_world_obs[of c p C r f] by simp
  show ?thesis
    using restore_obs[OF rs] o1 prepare_events_obs[of c p ?out]
    by (simp add: make_schedules_trace prepare_trace)
qed

lemma main_untuned_trained:
  assumes "\<not> tune_enable (tune c)" and st: "fst (startup c p C received f) = Inr e0"
  shows "fst (main c p C received f) = Completed
       \<and> trained (trace (snd (main c p C received f))) = py_range e0 (epochs (optim c))"
proof -
  obtain w4 where s: "startup c p C received f = (Inr e0, w4)"
    using st by (cases "startup c p C received f") simp
  let ?l = "train_loop c p C (run_output_dir c p received) (py_range e0 (epochs (optim c))) w4"
  obtain b w5 where l: "?l = (b, w5)" by (cases ?l)
  have nb: "\<not> b" and tr: "trained (trace w5) = py_range e0 (epochs (optim c))"
    using train_loop_no_stop[OF assms(1), of p C "run_output_dir c p received"
        "py_range e0 (epochs (optim c))" w4] l startup_Inr[OF s]
    by simp_all
  show ?thesis using s l nb tr by (simp add: main_def)
qed

subsection \<open>Resuming from the rolling snapshot\<close>

lemma py_range_Cons: "a < b \<Longrightarrow> py_range a b = a # py_range (a + 1) b"
  by (simp add: py_range_def upto_rec1)

lemma restored_loop_starts_at_stored_epoch:
  assumes "distributed p" and "fs w (Path sd ''latest.pt'') = Some (SnapshotFile sn)"
    and "snap_epoch sn < epochs (optim c)"
  shows "\<exists>w'. restore c p C sd w = Inr (snap_epoch sn, w')
           \<and> py_range (snap_epoch sn) (epochs (optim c))
               = snap_epoch sn # py_range (snap_epoch sn + 1) (epochs (optim c))"
  using restore_latest[OF assms(1,2)] py_range_Cons[OF assms(3)] by simp

text \<open>
  C1. The claim is that a state saved at epoch \<open>e\<close> and restored from \<open>latest.pt\<close> resumes
  at epoch \<open>e + 1\<close>. The code assigns \<open>epochs_run = snapshot["epoch"]\<close> and iterates over
  \<open>range(epochs_run, epochs)\<close>: here \<open>latest.pt\<close> holds the snapshot made in epoch 1
  (\<open>train_and_tune_snapshot\<close>: the mapping built in epoch \<open>e\<close> stores \<open>e\<close>), startup yields
  \<open>epochs_run = 1\<close>, and the epochs trained after the restore are 1 and 2, so epoch 1 runs
  a second time. In general (\<open>restored_loop_starts_at_stored_epoch\<close>) the restored loop
  starts at the stored epoch itself.
\<close>

theorem resume_from_latest_repeats_saved_epoch:
  "latest_only [''output'', ''run1'', ''snapshots'', ''latest.pt'']
      = Some (SnapshotFile \<lparr>snap_epoch = 1, snap_state = 2\<rparr>)
   \<and> fst (startup resume_cfg (worker_proc 0) (counting_collaborators 5) ''run1'' latest_only) = Inr 1
   \<and> trained (trace (snd (main resume_cfg (worker_proc 0) (counting_collaborators 5) ''run1''
         latest_only))) = [1, 2]"
proof -
  have a: "latest_only [''output'', ''run1'', ''snapshots'', ''latest.pt'']
      = Some (SnapshotFile \<lparr>snap_epoch = 1, snap_state = 2\<rparr>)"
    by (simp add: latest_only_def)
  have b: "fst (startup resume_cfg (worker_proc 0) (counting_collaborators 5) ''run1'' latest_only)
      = Inr 1"
    by code_simp
  have n: "\<not> tune_enable (tune resume_cfg)"
    by (simp add: resume_cfg_def untuned_cfg_def)
  have r: "py_range 1 (epochs (optim resume_cfg)) = [1, 2]"
    by (simp add: resume_cfg_def untuned_cfg_def example_cfg_def py_range_def upto_rec1)
  show ?thesis using main_untuned_trained[OF n b] a b r by simp
qed

subsection \<open>Early stopping\<close>






subsection \<open>The assertion on epochs and warmup epochs\<close>

text \<open>
  C3, as amended. For every configuration with \<open>epochs < warmup_epochs\<close>, \<open>main\<close> ends
  with an error and trains no epoch. When the output directory has been set up, the
  error is the \<open>AssertionError\<close> of line 261, raised before any schedule is generated
  and after everything of lines 110-259 was done: the trace at the failure ends with the
  writing of the configuration, the dataset and its loader, the networks, the loss and
  the optimizer. The error ends the run.
\<close>

theorem epochs_assertion_follows_allocation:
  assumes "epochs (optim c) < warmup_epochs (optim c)"
  shows "(\<exists>e. fst (main c p C received f) = Raised e)
       \<and> trained (trace (snd (main c p C received f))) = []
       \<and> (\<forall>w1. setup_output_dir c p (run_output_dir c p received)
                   (initial_world c p C received f) = Inr w1 \<longrightarrow>
             fst (main c p C received f) = Raised AssertionError
           \<and> trace (snd (main c p C received f))
               = trace w1 @ prepare_events c p (run_output_dir c p received)
           \<and> schedule_calls (trace (snd (main c p C received f))) = []
           \<and> MakeDataset \<in> set (trace (snd (main c p C received f)))
           \<and> BuildNetworks \<in> set (trace (snd (main c p C received f)))
           \<and> CreateOptimizer \<in> set (trace (snd (main c p C received f))))"
proof -
  let ?out = "run_output_dir c p received"
  let ?w0 = "initial_world c p C received f :: ('a, 'b) world"
  have ok: "main c p C received f = (Raised AssertionError, prepare c p C ?out w1)"
    if "setup_output_dir c p ?out ?w0 = Inr w1" for w1
    using that assms by (simp add: main_def startup_def Let_def)
  have bad: "main c p C received f = (Raised e, ?w0)"
    if "setup_output_dir c p ?out ?w0 = Inl e" for e
    using that by (simp add: main_def startup_def Let_def)
  have 1: "\<exists>e. fst (main c p C received f) = Raised e"
    using ok bad by (cases "setup_output_dir c p ?out ?w0") auto
  have 2: "trained (trace (snd (main c p C received f))) = []"
  proof (cases "setup_output_dir c p ?out ?w0")
    case (Inl e)
    then show ?thesis using bad[OF Inl] initial_world_obs[of c p C received f] by simp
  next
    case (Inr w1)
    then show ?thesis
      using ok[OF Inr] setup_output_dir_obs[OF Inr] initial_world_obs[of c p C received f]
        prepare_events_obs[of c p ?out]
      by (simp add: prepare_trace)
  qed
  have 3: "fst (main c p C received f) = Raised AssertionError
           \<and> trace (snd (main c p C received f)) = trace w1 @ prepare_events c p ?out
           \<and> schedule_calls (trace (snd (main c p C received f))) = []
           \<and> MakeDataset \<in> set (trace (snd (main c p C received f)))
           \<and> BuildNetworks \<in> set (trace (snd (main c p C received f)))
           \<and> CreateOptimizer \<in> set (trace (snd (main c p C received f)))"
    if s: "setup_output_dir c p ?out ?w0 = Inr w1" for w1
  proof -
    have t: "trace (snd (main c p C received f)) = trace w1 @ prepare_events c p ?out"
      using ok[OF s] by (simp add: prepare_trace)
    have sc: "schedule_calls (trace (snd (main c p C received f))) = []"
      unfolding t using setup_output_dir_obs[OF s] initial_world_obs[of c p C received f]
        prepare_events_obs[of c p ?out] by simp
    have m: "MakeDataset \<in> set (prepare_events c p ?out)"
        "BuildNetworks \<in> set (prepare_events c p ?out)"
        "CreateOptimizer \<in> set (prepare_events c p ?out)"
      by (simp_all add: prepare_events_def)
    show ?thesis using ok[OF s] t sc m by simp
  qed
  show ?thesis using 1 2 3 by blast
qed

theorem epochs_assertion_follows_allocation_witness:
  "epochs (optim short_cfg) < warmup_epochs (optim short_cfg)
   \<and> fst (main short_cfg single_proc (counting_collaborators 0) [] earlier_run)
       = Raised AssertionError
   \<and> MakeDataset \<in> set (trace (snd (main short_cfg single_proc (counting_collaborators 0) []
        earlier_run)))
   \<and> trained (trace (snd (main short_cfg single_proc (counting_collaborators 0) [] earlier_run)))
       = []"
proof -
  have h: "epochs (optim short_cfg) < warmup_epochs (optim short_cfg)"
    by (simp add: short_cfg_def example_cfg_def)
  have "\<not> isl (setup_output_dir short_cfg single_proc (run_output_dir short_cfg single_proc [])
          (initial_world short_cfg single_proc (counting_collaborators 0) [] earlier_run))"
    by code_simp
  then obtain w1 where
    "setup_output_dir short_cfg single_proc (run_output_dir short_cfg single_proc [])
          (initial_world short_cfg single_proc (counting_collaborators 0) [] earlier_run) = Inr w1"
    by (cases "setup_output_dir short_cfg single_proc (run_output_dir short_cfg single_proc [])
          (initial_world short_cfg single_proc (counting_collaborators 0) [] earlier_run)") auto
  then show ?thesis
    using epochs_assertion_follows_allocation[OF h, of single_proc "counting_collaborators 0" "[]"
        earlier_run] h
    by blast
qed

text \<open>
  The claim as stated fails: with 3 epochs and 5 warmup epochs on an empty file system,
  the run ends with the assertion only after the output directories were created and the
  dataset, the data loader, the networks, the loss, the optimizer and the gradient scaler
  were built.
\<close>

theorem assertion_after_dataset_and_networks:
  "fst (main short_cfg single_proc (counting_collaborators 0) [] Map.empty) = Raised AssertionError
   \<and> trace (snd (main short_cfg single_proc (counting_collaborators 0) [] Map.empty)) =
       [ReadClock, Mkdir [''output'', ''2024-01-01_00_00''],
        Mkdir [''output'', ''2024-01-01_00_00'', ''snapshots''],
        WriteConfig [''output'', ''2024-01-01_00_00''], PrepareTuneData,
        MakeDataset, MakeDataLoader, BuildNetworks, BuildLoss, CreateOptimizer, CreateGradScaler]"
  by code_simp

subsection \<open>The base learning rate\<close>

text \<open>
  C10. The base value that \<open>main\<close> passes to the schedule generator for the learning
  rate is \<open>cfg.optim.lr * (batch_size_per_gpu * world_size) / 256\<close>: it is the first
  argument of the first of the three calls \<open>make_schedules\<close> makes, these are the only
  calls of the generator in a run that gets through startup, and the value equals the
  configured \<open>lr\<close> only when \<open>lr\<close> is 0 or the total batch size is 256.
\<close>

theorem base_lr_scaled_by_total_batch_size:
  "schedule_calls (trace (make_schedules c p w)) = schedule_calls (trace w) @
     [CosineScheduler
        (lr (optim c) * (real_of_int (batch_size_per_gpu (train c)) * real (world_size p)) / 256)
        (min_lr (lr_scheduler (optim c))) (epochs (optim c)) (data_loader_len p)
        (warmup_epochs (optim c)),
      CosineScheduler (weight_decay (lr_scheduler (optim c)))
        (weight_decay_end (lr_scheduler (optim c))) (epochs (optim c)) (data_loader_len p) 0,
      CosineScheduler (momentum_teacher c) 1 (epochs (optim c)) (data_loader_len p) 0]
   \<and> (case startup c p C received f of
        (Inr epochs_run, w4) \<Rightarrow>
          schedule_calls (trace (snd (main c p C received f))) =
            [CosineScheduler
               (lr (optim c) * (real_of_int (batch_size_per_gpu (train c)) * real (world_size p)) / 256)
               (min_lr (lr_scheduler (optim c))) (epochs (optim c)) (data_loader_len p)
               (warmup_epochs (optim c)),
             CosineScheduler (weight_decay (lr_scheduler (optim c)))
               (weight_decay_end (lr_scheduler (optim c))) (epochs (optim c)) (data_loader_len p) 0,
             CosineScheduler (momentum_teacher c) 1 (epochs (optim c)) (data_loader_len p) 0]
      | (Inl e, w') \<Rightarrow> True)
   \<and> (base_lr c p = lr (optim c)
        \<longleftrightarrow> lr (optim c) = 0 \<or> batch_size_per_gpu (train c) * int (world_size p) = 256)"
proof -
  have b: "base_lr c p
      = lr (optim c) * (real_of_int (batch_size_per_gpu (train c)) * real (world_size p)) / 256"
    by (simp add: base_lr_def get_world_size_def)
  have 1: "schedule_calls (trace (make_schedules c p w)) = schedule_calls (trace w) @
     [CosineScheduler
        (lr (optim c) * (real_of_int (batch_size_per_gpu (train c)) * real (world_size p)) / 256)
        (min_lr (lr_scheduler (optim c))) (epochs (optim c)) (data_loader_len p)
        (warmup_epochs (optim c)),
      CosineScheduler (weight_decay (lr_scheduler (optim c)))
        (weight_decay_end (lr_scheduler (optim c))) (epochs (optim c)) (data_loader_len p) 0,
      CosineScheduler (momentum_teacher c) 1 (epochs (optim c)) (data_loader_len p) 0]"
    by (simp add: make_schedules_trace b)
  have 2: "schedule_calls (trace (snd (main c p C received f))) =
            [CosineScheduler
               (lr (optim c) * (real_of_int (batch_size_per_gpu (train c)) * real (world_size p)) / 256)
               (min_lr (lr_scheduler (optim c))) (epochs (optim c)) (data_loader_len p)
               (warmup_epochs (optim c)),
             CosineScheduler (weight_decay (lr_scheduler (optim c)))
               (weight_decay_end (lr_scheduler (optim c))) (epochs (optim c)) (data_loader_len p) 0,
             CosineScheduler (momentum_teacher c) 1 (epochs (optim c)) (data_loader_len p) 0]"
    if s: "startup c p C received f = (Inr e0, w4)" for e0 w4
  proof -
    let ?l = "train_loop c p C (run_output_dir c p received) (py_range e0 (epochs (optim c))) w4"
    have "schedule_calls (trace (snd (main c p C received f))) = schedule_calls (trace (snd ?l))"
      using s by (simp add: main_def split_def Let_def)
    also have "\<dots> = schedule_calls (trace w4)"
      by (rule train_loop_schedule_calls)
    finally show ?thesis using startup_Inr[OF s] b by simp
  qed
  have 3: "base_lr c p = lr (optim c)
        \<longleftrightarrow> lr (optim c) = 0 \<or> batch_size_per_gpu (train c) * int (world_size p) = 256"
  proof -
    have "base_lr c p = lr (optim c)
        \<longleftrightarrow> lr (optim c) * real_of_int (batch_size_per_gpu (train c) * int (world_size p))
              = lr (optim c) * 256"
      by (simp add: base_lr_def get_world_size_def field_simps)
    also have "\<dots> \<longleftrightarrow> lr (optim c) = 0
        \<or> real_of_int (batch_size_per_gpu (train c) * int (world_size p)) = 256"
      by auto
    also have "\<dots> \<longleftrightarrow> lr (optim c) = 0 \<or> batch_size_per_gpu (train c) * int (world_size p) = 256"
      by (metis of_int_eq_numeral_iff)
    finally show ?thesis .
  qed
  show ?thesis using 1 2 3 by (auto split: prod.splits sum.splits)
qed

theorem base_lr_scaled_by_total_batch_size_witness:
  "fst (startup example_cfg (worker_proc 0) (counting_collaborators 0) ''run1'' Map.empty) = Inr 0
   \<and> hd (schedule_calls (trace (snd (main example_cfg (worker_proc 0) (counting_collaborators 0)
        ''run1'' Map.empty)))) = CosineScheduler (1 / 4000) (1 / 1000000) 3 10 1
   \<and> base_lr example_cfg (worker_proc 0) \<noteq> lr (optim example_cfg)"
proof -
  have s: "fst (startup example_cfg (worker_proc 0) (counting_collaborators 0) ''run1'' Map.empty)
      = Inr 0"
    by code_simp
  then obtain w4 where
    s': "startup example_cfg (worker_proc 0) (counting_collaborators 0) ''run1'' Map.empty
           = (Inr 0, w4)"
    by (cases "startup example_cfg (worker_proc 0) (counting_collaborators 0) ''run1'' Map.empty")
      simp
  have v: "lr (optim example_cfg)
        * (real_of_int (batch_size_per_gpu (train example_cfg)) * real (world_size (worker_proc 0)))
        / 256 = 1 / 4000"
      "min_lr (lr_scheduler (optim example_cfg)) = 1 / 1000000"
      "epochs (optim example_cfg) = 3" "data_loader_len (worker_proc 0) = 10"
      "warmup_epochs (optim example_cfg) = 1"
    by (simp_all add: example_cfg_def worker_proc_def)
  have n: "lr (optim example_cfg) \<noteq> 0
      \<and> batch_size_per_gpu (train example_cfg) * int (world_size (worker_proc 0)) \<noteq> 256"
    by (simp add: example_cfg_def worker_proc_def)
  note t = base_lr_scaled_by_total_batch_size[of example_cfg "worker_proc 0" w4
      "counting_collaborators 0" "''run1''" Map.empty]
  from t s' have "hd (schedule_calls (trace (snd (main example_cfg (worker_proc 0)
      (counting_collaborators 0) ''run1'' Map.empty))))
    = CosineScheduler
        (lr (optim example_cfg)
          * (real_of_int (batch_size_per_gpu (train example_cfg)) * real (world_size (worker_proc 0)))
          / 256)
        (min_lr (lr_scheduler (optim example_cfg))) (epochs (optim example_cfg))
        (data_loader_len (worker_proc 0)) (warmup_epochs (optim example_cfg))"
    by simp
  then have c: "hd (schedule_calls (trace (snd (main example_cfg (worker_proc 0)
      (counting_collaborators 0) ''run1'' Map.empty))))
    = CosineScheduler (1 / 4000) (1 / 1000000) 3 10 1"
    unfolding v .
  from t n have "base_lr example_cfg (worker_proc 0) \<noteq> lr (optim example_cfg)"
    by blast
  with s c show ?thesis by blast
qed

subsection \<open>Epoch-numbered snapshots\<close>





subsection \<open>The output directory of a run that does not resume\<close>

lemma below_child:
  assumes "strict_prefix out q" and "prefix q (out @ [x])"
  shows "q = out @ [x]"
proof -
  from assms(1) obtain zs where q: "q = out @ zs" and nz: "zs \<noteq> []"
    by (auto simp: strict_prefix_def prefix_def)
  from nz obtain y ys where zs: "zs = y # ys" by (cases zs) auto
  from assms(2) q zs show ?thesis by (auto simp: prefix_def Cons_eq_append_conv)
qed

text \<open>
  C9. When \<open>cfg.train.resume\<close> is false and the output directory of the run exists as a
  directory, the main process removes it with everything below it and creates it anew:
  the setup succeeds, its actions are \<open>rmtree\<close>, then the \<open>mkdir\<close> of the directory, of
  \<open>snapshots\<close> and (when tuning saves features) of \<open>features\<close>, and afterwards every
  path strictly below the output directory is absent, except these fresh directories.
  No earlier snapshot, feature file or log survives.
\<close>

theorem existing_output_dir_is_deleted:
  assumes "\<not> resume (train c)" and "is_main_process p" and "fs w out = Some Dir"
  shows "\<exists>w'. setup_output_dir c p out w = Inr w'
       \<and> trace w' = trace w @ [Rmtree out, Mkdir out, Mkdir (out @ [''snapshots''])]
           @ (if tune_every (tune c) \<noteq> 0 \<and> save_features (knn (tune c))
              then [Mkdir (out @ [''features''])] else [])
       \<and> fs w' out = Some Dir
       \<and> (\<forall>q. strict_prefix out q \<longrightarrow>
             fs w' q = (if q = out @ [''snapshots'']
                           \<or> (q = out @ [''features'']
                               \<and> tune_every (tune c) \<noteq> 0 \<and> save_features (knn (tune c)))
                        then Some Dir else None))"
proof -
  let ?sd = "out @ [''snapshots'']"
  let ?fd = "out @ [''features'']"
  let ?feat = "tune_every (tune c) \<noteq> 0 \<and> save_features (knn (tune c))"
  define f1 where "f1 = (\<lambda>q. if prefix out q then None else fs w q)"
  define w1 where "w1 = emit [Rmtree out] (w\<lparr>fs := f1\<rparr>)"
  define f2 where "f2 = (\<lambda>q. if prefix q out \<and> f1 q = None then Some Dir else f1 q)"
  define w2 where "w2 = emit [Mkdir out] (w1\<lparr>fs := f2\<rparr>)"
  define f3 where "f3 = (\<lambda>q. if prefix q ?sd \<and> f2 q = None then Some Dir else f2 q)"
  define w3 where "w3 = emit [Mkdir ?sd] (w2\<lparr>fs := f3\<rparr>)"
  define f4 where "f4 = (\<lambda>q. if prefix q ?fd \<and> f3 q = None then Some Dir else f3 q)"
  define w4 where "w4 = emit [Mkdir ?fd] (w3\<lparr>fs := f4\<rparr>)"
  have r1: "shutil_rmtree out w = Inr w1"
    using assms(3) by (simp add: shutil_rmtree_def w1_def f1_def)
  have fs1: "fs w1 = f1" by (simp add: w1_def)
  have f1out: "f1 out = None" by (simp add: f1_def)
  have m2: "path_mkdir False out w1 = Inr w2"
    by (simp add: path_mkdir_def fs1 f1out w2_def f2_def cong del: if_weak_cong)
  have fs2: "fs w2 = f2" by (simp add: w2_def)
  have f2sd: "f2 ?sd = None" by (simp add: f2_def f1_def)
  have m3: "path_mkdir True ?sd w2 = Inr w3"
    by (simp add: path_mkdir_def fs2 f2sd w3_def f3_def cong del: if_weak_cong)
  have fs3: "fs w3 = f3" by (simp add: w3_def)
  have f3fd: "f3 ?fd = None" by (simp add: f3_def f2_def f1_def)
  have m4: "path_mkdir True ?fd w3 = Inr w4"
    by (simp add: path_mkdir_def fs3 f3fd w4_def f4_def cong del: if_weak_cong)
  have fs4: "fs w4 = f4" by (simp add: w4_def)
  have res: "setup_output_dir c p out w = Inr (if ?feat then w4 else w3)"
    using assms r1 m2 m3 m4 by (simp add: setup_output_dir_def path_exists_def Path_def)
  have tr3: "trace w3 = trace w @ [Rmtree out, Mkdir out, Mkdir ?sd]"
    by (simp add: w3_def w2_def w1_def)
  have tr4: "trace w4 = trace w @ [Rmtree out, Mkdir out, Mkdir ?sd, Mkdir ?fd]"
    by (simp add: w4_def tr3)
  have o3: "f3 out = Some Dir" by (simp add: f3_def f2_def f1_def)
  have o4: "f4 out = Some Dir" by (simp add: f4_def o3)
  have b3: "f3 q = (if q = ?sd then Some Dir else None)" if "strict_prefix out q" for q
  proof -
    from that have nq: "\<not> prefix q out" and pq: "prefix out q"
      by (auto simp: strict_prefix_def)
    have "prefix q ?sd \<longleftrightarrow> q = ?sd"
      using below_child[OF that] by auto
    then show ?thesis using nq pq by (simp add: f3_def f2_def f1_def)
  qed
  have b4: "f4 q = (if q = ?sd \<or> q = ?fd then Some Dir else None)" if "strict_prefix out q" for q
  proof -
    have "prefix q ?fd \<longleftrightarrow> q = ?fd"
      using below_child[OF that] by auto
    then show ?thesis using b3[OF that] by (auto simp: f4_def)
  qed
  show ?thesis
  proof (cases ?feat)
    case True
    then have "setup_output_dir c p out w = Inr w4" using res by auto
    then show ?thesis using True tr4 o4 b4 fs4 by auto
  next
    case False
    then have "setup_output_dir c p out w = Inr w3" using res by auto
    moreover have "trace w3 = trace w @ [Rmtree out, Mkdir out, Mkdir ?sd] @
        (if ?feat then [Mkdir ?fd] else [])"
      using False tr3 by simp
    moreover have "\<forall>q. strict_prefix out q \<longrightarrow>
        fs w3 q = (if q = ?sd \<or> (q = ?fd \<and> ?feat) then Some Dir else None)"
      using False b3 fs3 by auto
    ultimately show ?thesis using o3 fs3 by auto
  qed
qed

theorem existing_output_dir_is_deleted_witness:
  "\<not> resume (train example_cfg) \<and> is_main_process single_proc
   \<and> fs (initial_world example_cfg single_proc (counting_collaborators 0) [] earlier_run)
        [''output'', ''2024-01-01_00_00''] = Some Dir
   \<and> earlier_run [''output'', ''2024-01-01_00_00'', ''snapshots'', ''epoch_000.pt'']
        = Some (SnapshotFile \<lparr>snap_epoch = 0, snap_state = 1\<rparr>)
   \<and> (case setup_output_dir example_cfg single_proc [''output'', ''2024-01-01_00_00'']
             (initial_world example_cfg single_proc (counting_collaborators 0) [] earlier_run) of
         Inl e \<Rightarrow> False
       | Inr w' \<Rightarrow>
           fs w' [''output'', ''2024-01-01_00_00'', ''snapshots'', ''epoch_000.pt''] = None
           \<and> fs w' [''output'', ''2024-01-01_00_00'', ''log.txt''] = None
           \<and> fs w' [''output'', ''2024-01-01_00_00'', ''snapshots''] = Some Dir)"
proof -
  let ?out = "[''output'', ''2024-01-01_00_00'']"
  let ?w = "initial_world example_cfg single_proc (counting_collaborators 0) [] earlier_run"
  have h1: "\<not> resume (train example_cfg)" by (simp add: example_cfg_def)
  have h2: "is_main_process single_proc"
    by (simp add: is_main_process_def distributed_def single_proc_def)
  have h3: "fs ?w ?out = Some Dir" by (simp add: initial_world_def earlier_run_def)
  have e: "earlier_run [''output'', ''2024-01-01_00_00'', ''snapshots'', ''epoch_000.pt'']
        = Some (SnapshotFile \<lparr>snap_epoch = 0, snap_state = 1\<rparr>)"
    by (simp add: earlier_run_def)
  have sp: "strict_prefix ?out (?out @ [''snapshots'', ''epoch_000.pt''])"
      "strict_prefix ?out (?out @ [''log.txt''])" "strict_prefix ?out (?out @ [''snapshots''])"
    by simp_all
  from existing_output_dir_is_deleted[OF h1 h2 h3] obtain w' where
    w': "setup_output_dir example_cfg single_proc ?out ?w = Inr w'"
    and below: "\<forall>q. strict_prefix ?out q \<longrightarrow>
             fs w' q = (if q = ?out @ [''snapshots'']
                           \<or> (q = ?out @ [''features'']
                               \<and> tune_every (tune example_cfg) \<noteq> 0
                               \<and> save_features (knn (tune example_cfg)))
                        then Some Dir else None)"
    by blast
  have "fs w' (?out @ [''snapshots'', ''epoch_000.pt'']) = None"
       "fs w' (?out @ [''log.txt'']) = None"
       "fs w' (?out @ [''snapshots'']) = Some Dir"
    using below sp by (simp_all add: example_cfg_def)
  then show ?thesis using h1 h2 h3 e w' by simp
qed

subsection \<open>The run identifier\<close>

lemma filter_upt_zero:
  assumes "0 < n" and "\<And>r. r < n \<Longrightarrow> P r \<longleftrightarrow> r = 0"
  shows "filter P [0..<n] = [0]"
proof -
  have "filter P [0..<n] = filter (\<lambda>r. r = 0) [0..<n]"
    using assms(2) by (intro filter_cong) auto
  also have "\<dots> = [0]"
  proof -
    have "[0..<n] = 0 # [Suc 0..<n]" using assms(1) by (simp add: upt_conv_Cons)
    moreover have "filter (\<lambda>r. r = 0) [Suc 0..<n] = []" by (auto simp: filter_empty_conv)
    ultimately show ?thesis by simp
  qed
  finally show ?thesis .
qed

lemma multi_process_job_nth:
  assumes "multi_process_job ps" and "r < length ps"
  shows "rank (ps ! r) = r" and "distributed (ps ! r)"
proof -
  from assms(1) have m: "map rank ps = [0..<length ps]" and d: "list_all distributed ps"
    by (simp_all add: multi_process_job_def)
  have "rank (ps ! r) = map rank ps ! r" using assms(2) by simp
  also have "\<dots> = r" using assms(2) unfolding m by simp
  finally show "rank (ps ! r) = r" .
  show "distributed (ps ! r)" using d assms(2) by (simp add: list_all_length)
qed

text \<open>
  C6. In a multi-process job, exactly one process consults a source of a run identifier,
  and it is rank 0 (it takes the formatted time, or the wandb run id when wandb is
  enabled); every other process starts from the empty string. After the broadcast every
  process holds the identifier of rank 0, so that every process builds the same output
  directory: the configured \<open>output_dir\<close> joined with the run identifier of rank 0.
\<close>

theorem run_id_generated_on_rank_0_and_shared:
  assumes "multi_process_job ps"
  shows "filter (\<lambda>r. snd (local_run_id c (ps ! r)) \<noteq> []) [0..<length ps] = [0]
       \<and> fst (local_run_id c (ps ! 0)) = (if wandb_enable c then wandb_id (ps ! 0) else now (ps ! 0))
       \<and> length (job_output_dirs c ps) = length ps
       \<and> (\<forall>r < length ps.
             (r \<noteq> 0 \<longrightarrow> fst (local_run_id c (ps ! r)) = [])
           \<and> job_run_ids c ps ! r = fst (local_run_id c (ps ! 0))
           \<and> job_output_dirs c ps ! r = Path (output_dir (train c)) (fst (local_run_id c (ps ! 0)))
           \<and> run_output_dir c (ps ! r)
                (broadcast_object_list (map (\<lambda>p. fst (local_run_id c p)) ps) 0 ! r)
               = job_output_dirs c ps ! r)"
proof -
  from assms have ne: "0 < length ps" by (simp add: multi_process_job_def)
  have main_iff: "is_main_process (ps ! r) \<longleftrightarrow> r = 0" if "r < length ps" for r
    using multi_process_job_nth[OF assms that] by (simp add: is_main_process_def)
  have gen: "snd (local_run_id c (ps ! r)) \<noteq> [] \<longleftrightarrow> r = 0" if "r < length ps" for r
    using main_iff[OF that] by (simp add: local_run_id_def Let_def)
  have 1: "filter (\<lambda>r. snd (local_run_id c (ps ! r)) \<noteq> []) [0..<length ps] = [0]"
    using filter_upt_zero[OF ne, of "\<lambda>r. snd (local_run_id c (ps ! r)) \<noteq> []"] gen by blast
  have 2: "fst (local_run_id c (ps ! 0))
      = (if wandb_enable c then wandb_id (ps ! 0) else now (ps ! 0))"
    using main_iff[OF ne] by (simp add: local_run_id_def Let_def)
  have 3: "length (job_output_dirs c ps) = length ps"
    by (simp add: job_output_dirs_def job_run_ids_def broadcast_object_list_def Let_def)
  have bc: "broadcast_object_list (map (\<lambda>p. fst (local_run_id c p)) ps) 0 ! r
      = fst (local_run_id c (ps ! 0))" if "r < length ps" for r
    using that ne by (simp add: broadcast_object_list_def)
  have ids: "job_run_ids c ps ! r = fst (local_run_id c (ps ! 0))" if "r < length ps" for r
  proof -
    have "job_run_ids c ps ! r =
        (if distributed (ps ! r)
         then broadcast_object_list (map (\<lambda>p. fst (local_run_id c p)) ps) 0 ! r
         else fst (local_run_id c (ps ! r)))"
      using that by (simp add: job_run_ids_def Let_def broadcast_object_list_def)
    then show ?thesis using multi_process_job_nth(2)[OF assms that] bc[OF that] by simp
  qed
  have 4: "(r \<noteq> 0 \<longrightarrow> fst (local_run_id c (ps ! r)) = [])
           \<and> job_run_ids c ps ! r = fst (local_run_id c (ps ! 0))
           \<and> job_output_dirs c ps ! r = Path (output_dir (train c)) (fst (local_run_id c (ps ! 0)))
           \<and> run_output_dir c (ps ! r)
                (broadcast_object_list (map (\<lambda>p. fst (local_run_id c p)) ps) 0 ! r)
               = job_output_dirs c ps ! r"
    if r: "r < length ps" for r
  proof -
    have a: "r \<noteq> 0 \<longrightarrow> fst (local_run_id c (ps ! r)) = []"
      using main_iff[OF r] by (simp add: local_run_id_def)
    have lr: "r < length (job_run_ids c ps)"
      using r by (simp add: job_run_ids_def broadcast_object_list_def Let_def)
    have d: "job_output_dirs c ps ! r = Path (output_dir (train c)) (fst (local_run_id c (ps ! 0)))"
      using lr ids[OF r] by (simp add: job_output_dirs_def)
    have e: "run_output_dir c (ps ! r)
                (broadcast_object_list (map (\<lambda>p. fst (local_run_id c p)) ps) 0 ! r)
               = Path (output_dir (train c)) (fst (local_run_id c (ps ! 0)))"
      using multi_process_job_nth(2)[OF assms r] bc[OF r] by (simp add: run_output_dir_def Let_def)
    show ?thesis using a ids[OF r] d e by simp
  qed
  show ?thesis using 1 2 3 4 by blast
qed

theorem run_id_generated_on_rank_0_and_shared_witness:
  "multi_process_job [worker_proc 0, worker_proc 1]
   \<and> job_output_dirs example_cfg [worker_proc 0, worker_proc 1] ! 0 = [''output'', ''2024-01-01_00_00'']
   \<and> job_output_dirs example_cfg [worker_proc 0, worker_proc 1] ! 1 = [''output'', ''2024-01-01_00_00'']
   \<and> fst (local_run_id example_cfg (worker_proc 1)) = []"
proof -
  have h: "multi_process_job [worker_proc 0, worker_proc 1]"
    by (simp add: multi_process_job_def worker_proc_def distributed_def)
  let ?ps = "[worker_proc 0, worker_proc 1]"
  let ?id0 = "fst (local_run_id example_cfg (?ps ! 0))"
  note t = run_id_generated_on_rank_0_and_shared[OF h, of example_cfg]
  from t have "?id0 = (if wandb_enable example_cfg then wandb_id (?ps ! 0) else now (?ps ! 0))"
    by blast
  then have id0: "?id0 = ''2024-01-01_00_00''"
    by (simp add: example_cfg_def worker_proc_def)
  have p: "Path (output_dir (train example_cfg)) ''2024-01-01_00_00''
      = [''output'', ''2024-01-01_00_00'']"
    by (simp add: Path_def example_cfg_def)
  from t have q: "\<forall>r < length ?ps.
      (r \<noteq> 0 \<longrightarrow> fst (local_run_id example_cfg (?ps ! r)) = [])
      \<and> job_output_dirs example_cfg ?ps ! r = Path (output_dir (train example_cfg)) ?id0"
    by blast
  have l: "0 < length ?ps" "1 < length ?ps" by simp_all
  from q l(1) have d0: "job_output_dirs example_cfg ?ps ! 0
      = Path (output_dir (train example_cfg)) ?id0"
    by blast
  from q l(2) have d1: "job_output_dirs example_cfg ?ps ! 1
      = Path (output_dir (train example_cfg)) ?id0"
    and e1: "fst (local_run_id example_cfg (?ps ! 1)) = []"
    by auto
  have e1': "fst (local_run_id example_cfg (worker_proc 1)) = []"
    using e1 by simp
  show ?thesis using h d0 d1 e1' unfolding id0 p by blast
qed

subsection \<open>The stochastic operations of the three pipelines\<close>

lemma new_ops_append [simp]: "new_ops x (x\<lparr>img_size := s, history := history x @ ops\<rparr>) = ops"
  by (simp add: new_ops_def)









end
